theory Spec2Isabelle
  imports Main
begin

section \<open>Values, promises and call traces\<close>

text \<open>
  Modelled from the spec: the class \<open>Path\<close> of \<open>./path\<close> is not among the sources
  (the spec names it under path and filesystem utilities: existence checks and path
  joining). A path is the string it prints as, so \<open>toString\<close> is the identity; whether
  a path exists is a fact of the filesystem, which is part of the external state.
\<close>

type_synonym Path = string

text \<open>
  The external state: the set of paths that exist on the filesystem, and whatever else
  the external collaborators (git, CMake, gulp, stub repositories) keep.
\<close>

type_synonym 'x env = "Path set \<times> 'x"

definition Path_exists :: "'x env \<Rightarrow> Path \<Rightarrow> bool" where
  "Path_exists s p = (p \<in> fst s)"

text \<open>
  \<open>BuildConfig.ts\<close>: the two enumerations and the interface it declares under the name
  \<open>Build\<close>.
\<close>

datatype Platform = Platform_Host

datatype Architecture = Architecture_Host

record BuildConfig =
  platform :: Platform
  architecture :: Architecture
  isDeploy :: bool

datatype js_error = JsError string

datatype js_value =
    Undefined
  | Null
  | Boolean bool
  | PlatformValue Platform
  | ArchitectureValue Architecture
  | ProcessOutput string

text \<open>
  Modelled from the spec: the interface \<open>Build\<close> that \<open>vcs.ts\<close> imports from
  \<open>./build-config\<close> is not among the sources (the spec gives a build as platform,
  architecture and release intent). A build is the object the code is handed: its
  properties by name, each with its value. Reading a property that the object does not
  have gives \<open>undefined\<close>.
\<close>

type_synonym Build = "(string \<times> js_value) list"

definition Build_property :: "Build \<Rightarrow> string \<Rightarrow> js_value" where
  "Build_property build key = (case map_of build key of None \<Rightarrow> Undefined | Some v \<Rightarrow> v)"

text \<open>An object with exactly the three properties that \<open>BuildConfig.ts\<close> declares.\<close>

definition BuildConfig_object :: "BuildConfig \<Rightarrow> Build" where
  "BuildConfig_object c =
     [(''platform'', PlatformValue (platform c)),
      (''architecture'', ArchitectureValue (architecture c)),
      (''isDeploy'', Boolean (isDeploy c))]"

text \<open>
  A promise is known by how it settles. A function declared to return a promise may
  still return a plain value (\<open>RepositoryDependency.buildInstall\<close> returns \<open>null\<close>).
\<close>

datatype settled = Resolved js_value | Rejected js_error

datatype returned = Value js_value | Promise settled

text \<open>
  Modelled from the spec: the class \<open>CMakeOptions\<close> of \<open>./cmake\<close> is not among the
  sources (the spec lists what the options expose: install prefix, release flag, target
  platform, configuration key/value pairs). An options object is represented by the
  arguments of the builder calls that made it: \<open>create\<close>, and, when they were called,
  \<open>isReleaseBuild\<close>, \<open>platform\<close> and \<open>configOptions\<close>.
\<close>

record CMakeOptions =
  opt_create :: Path
  opt_isReleaseBuild :: "js_value option"
  opt_platform :: "js_value option"
  opt_configOptions :: "(string \<times> string) list option"

definition CMakeOptions_create :: "Path \<Rightarrow> CMakeOptions" where
  "CMakeOptions_create installLocation =
     \<lparr>opt_create = installLocation, opt_isReleaseBuild = None, opt_platform = None,
      opt_configOptions = None\<rparr>"

definition CMakeOptions_isReleaseBuild :: "js_value \<Rightarrow> CMakeOptions \<Rightarrow> CMakeOptions" where
  "CMakeOptions_isReleaseBuild v opts = opts\<lparr>opt_isReleaseBuild := Some v\<rparr>"

definition CMakeOptions_platform :: "js_value \<Rightarrow> CMakeOptions \<Rightarrow> CMakeOptions" where
  "CMakeOptions_platform v opts = opts\<lparr>opt_platform := Some v\<rparr>"

definition CMakeOptions_configOptions ::
  "(string \<times> string) list \<Rightarrow> CMakeOptions \<Rightarrow> CMakeOptions" where
  "CMakeOptions_configOptions kvs opts = opts\<lparr>opt_configOptions := Some kvs\<rparr>"

text \<open>
  Every call that leaves the code under study is recorded: which operation, with which
  arguments, and the calls that the callee made in turn while it ran. A trace is the list
  of the calls a function made itself, in the order it made them.
\<close>

datatype invocation =
    Raftlog string string
  | Execute string "string list" "Path option"
  | RepositoryDownload Path
  | RepositoryPatch Path Path
  | DependencyDownload string
  | DependencyBuildInstall string
  | CMakeConfigure Path Path CMakeOptions
  | CMakeBuild Path
  | CMakeInstall Path
  | GulpPipeline "string list" "(string \<times> string) list" string
  | Rimraf string

datatype event = Invoke invocation "event list"

fun invocation_of :: "event \<Rightarrow> invocation" where
  "invocation_of (Invoke i evs) = i"

text \<open>
  A piece of code run from an external state gives a result, the trace of the calls it
  made, and the external state it leaves.
\<close>

type_synonym ('a, 'x) prog = "'x env \<Rightarrow> 'a \<times> event list \<times> 'x env"

definition prog_return :: "'a \<Rightarrow> ('a, 'x) prog" where
  "prog_return a s = (a, [], s)"

definition prog_bind :: "('a, 'x) prog \<Rightarrow> ('a \<Rightarrow> ('b, 'x) prog) \<Rightarrow> ('b, 'x) prog" where
  "prog_bind m k s =
     (case m s of (a, evs, s1) \<Rightarrow>
        (case k a s1 of (b, evs', s2) \<Rightarrow> (b, evs @ evs', s2)))"

text \<open>
  \<open>await p; rest\<close> in an async function, and \<open>p.then(() => rest)\<close>: the rest runs once
  \<open>p\<close> has resolved; a rejection of \<open>p\<close> is the result and the rest never runs.
\<close>

definition await :: "(settled, 'x) prog \<Rightarrow> (js_value \<Rightarrow> (settled, 'x) prog) \<Rightarrow> (settled, 'x) prog" where
  "await m k =
     prog_bind m (\<lambda>r. case r of Rejected e \<Rightarrow> prog_return (Rejected e) | Resolved v \<Rightarrow> k v)"

text \<open>What a \<open>then\<close> callback returns settles the promise of the \<open>then\<close>.\<close>

definition adopt :: "(returned, 'x) prog \<Rightarrow> (settled, 'x) prog" where
  "adopt m = prog_bind m (\<lambda>r. prog_return (case r of Value v \<Rightarrow> Resolved v | Promise p \<Rightarrow> p))"

definition promise :: "(settled, 'x) prog \<Rightarrow> (returned, 'x) prog" where
  "promise m = prog_bind m (\<lambda>r. prog_return (Promise r))"

text \<open>A call of a collaborator that is itself traced code (an interface of the repository).\<close>

definition call :: "invocation \<Rightarrow> ('a, 'x) prog \<Rightarrow> ('a, 'x) prog" where
  "call i f s = (case f s of (r, evs, s1) \<Rightarrow> (r, [Invoke i evs], s1))"

text \<open>A call of an external primitive: it acts on the external state only.\<close>

definition extcall :: "invocation \<Rightarrow> ('x env \<Rightarrow> 'a \<times> 'x env) \<Rightarrow> ('a, 'x) prog" where
  "extcall i f s = (case f s of (r, s1) \<Rightarrow> (r, [Invoke i []], s1))"

section \<open>\<open>vcs.ts\<close>: repositories\<close>

text \<open>The interface \<open>Repository\<close>.\<close>

record 'x Repository =
  Repository_download :: "Path \<Rightarrow> (settled, 'x) prog"
  Repository_patch :: "Path \<Rightarrow> Path \<Rightarrow> (settled, 'x) prog"

text \<open>
  \<open>execute\<close> of \<open>./system\<close> runs an external process: command, arguments and the
  working directory option. It is a parameter of everything that runs a process.
\<close>

type_synonym 'x execute_fn =
  "string \<Rightarrow> string list \<Rightarrow> Path option \<Rightarrow> 'x env \<Rightarrow> settled \<times> 'x env"

definition execute :: "'x execute_fn \<Rightarrow> string \<Rightarrow> string list \<Rightarrow> Path option \<Rightarrow> (settled, 'x) prog" where
  "execute sys cmd args cwd = extcall (Execute cmd args cwd) (sys cmd args cwd)"

record GitRepository =
  uri :: string
  branch :: "string option"

definition getGitRepo :: "'x execute_fn \<Rightarrow> string \<Rightarrow> Path \<Rightarrow> (settled, 'x) prog" where
  "getGitRepo sys u destination s =
     (if \<not> Path_exists s destination
      then execute sys ''git'' [''clone'', u, destination] None s
      else prog_return (Resolved Undefined) s)"

definition checkoutBranch :: "'x execute_fn \<Rightarrow> Path \<Rightarrow> string \<Rightarrow> (settled, 'x) prog" where
  "checkoutBranch sys repo branchName =
     execute sys ''git'' [''checkout'', branchName] (Some repo)"

text \<open>
  \<open>if (this.branch)\<close>: a branch that was not given (\<open>undefined\<close>) and the empty string
  are both falsy.
\<close>

definition GitRepository_download :: "'x execute_fn \<Rightarrow> GitRepository \<Rightarrow> Path \<Rightarrow> (settled, 'x) prog" where
  "GitRepository_download sys this destination =
     await (getGitRepo sys (uri this) destination) (\<lambda>_.
       case branch this of
         None \<Rightarrow> prog_return (Resolved Undefined)
       | Some b \<Rightarrow>
           if b \<noteq> [] then checkoutBranch sys destination b
           else prog_return (Resolved Undefined))"

definition GitRepository_patch :: "'x execute_fn \<Rightarrow> GitRepository \<Rightarrow> Path \<Rightarrow> Path \<Rightarrow> (settled, 'x) prog" where
  "GitRepository_patch sys this repoDirectory patch s =
     (if Path_exists s repoDirectory \<and> Path_exists s patch
      then await (execute sys ''git'' [''apply'', patch] (Some repoDirectory))
             (\<lambda>_. prog_return (Resolved Undefined)) s
      else prog_return (Resolved Undefined) s)"

text \<open>\<open>class GitRepository implements Repository\<close>.\<close>

definition GitRepository_Repository :: "'x execute_fn \<Rightarrow> GitRepository \<Rightarrow> 'x Repository" where
  "GitRepository_Repository sys this =
     \<lparr>Repository_download = GitRepository_download sys this,
      Repository_patch = GitRepository_patch sys this\<rparr>"

section \<open>\<open>vcs.ts\<close>: dependencies\<close>

text \<open>
  The project layout of \<open>./project\<close> is not among the sources: a project is the three
  directory functions the code calls, whatever they compute.
\<close>

record Project =
  dirForDependency :: "string \<Rightarrow> Path"
  dirForDependencyBuild :: "string \<Rightarrow> Build \<Rightarrow> Path"
  dirForDependencyInstall :: "Build \<Rightarrow> Path"

text \<open>
  Modelled from the spec: the interface \<open>DependencyDescriptor\<close> of
  \<open>./raft-file-descriptor\<close> is not among the sources (the spec gives it as
  \<open>name : string\<close> and \<open>configOptions\<close>, a mapping of string to value): the declared
  name and the configuration options, key/value pairs in the order they were declared.
\<close>

record DependencyDescriptor =
  name :: string
  configOptions :: "(string \<times> string) list"

text \<open>The interface \<open>Dependency\<close>.\<close>

record 'x Dependency =
  Dependency_name :: string
  Dependency_patches :: "Path list"
  Dependency_download :: "Project \<Rightarrow> Build \<Rightarrow> (settled, 'x) prog"
  Dependency_buildInstall :: "Project \<Rightarrow> Build \<Rightarrow> (returned, 'x) prog"

text \<open>
  \<open>class RepositoryDependency\<close>: the three constructor parameters are its fields;
  \<open>CMakeDependency\<close> extends it without adding any.
\<close>

record 'x RepositoryDependency =
  descriptor :: DependencyDescriptor
  repository :: "'x Repository"
  patches :: "Path list"

text \<open>\<open>get name ()\<close>.\<close>

definition RepositoryDependency_name :: "'x RepositoryDependency \<Rightarrow> string" where
  "RepositoryDependency_name this = name (descriptor this)"

text \<open>The loop \<open>for (let patch of this.patches) await this.repository.patch(...)\<close>.\<close>

primrec applyPatches :: "'x Repository \<Rightarrow> Path \<Rightarrow> Path list \<Rightarrow> (settled, 'x) prog" where
  "applyPatches repo dependencyDir [] = prog_return (Resolved Undefined)"
| "applyPatches repo dependencyDir (patch # rest) =
     await (call (RepositoryPatch dependencyDir patch) (Repository_patch repo dependencyDir patch))
       (\<lambda>_. applyPatches repo dependencyDir rest)"

definition RepositoryDependency_download ::
  "'x RepositoryDependency \<Rightarrow> Project \<Rightarrow> Build \<Rightarrow> (settled, 'x) prog" where
  "RepositoryDependency_download this project build s =
     (let dependencyDir = dirForDependency project (RepositoryDependency_name this) in
      if Path_exists s dependencyDir then prog_return (Resolved Undefined) s
      else await (call (RepositoryDownload dependencyDir)
                    (Repository_download (repository this) dependencyDir))
             (\<lambda>_. applyPatches (repository this) dependencyDir (patches this)) s)"

text \<open>
  The specification's "apply each patch, in array order", written on the repository
  alone: each patch of the list is handed to \<open>repository.patch\<close>, in order, each from
  the state the one before left, and each resolves. The value is the calls made and the
  state reached, and there is none when some patch rejects.
\<close>

fun patches_all_resolve ::
  "'x Repository \<Rightarrow> Path \<Rightarrow> Path list \<Rightarrow> 'x env \<Rightarrow> (event list \<times> 'x env) option" where
  "patches_all_resolve repo dir [] s = Some ([], s)"
| "patches_all_resolve repo dir (p # ps) s =
     (case Repository_patch repo dir p s of
        (Rejected e, evs, s1) \<Rightarrow> None
      | (Resolved v, evs, s1) \<Rightarrow>
          (case patches_all_resolve repo dir ps s1 of
             None \<Rightarrow> None
           | Some (evs', s2) \<Rightarrow> Some (Invoke (RepositoryPatch dir p) evs # evs', s2)))"

text \<open>\<open>buildInstall(project, build) : Promise<any> { return null }\<close>.\<close>

definition RepositoryDependency_buildInstall ::
  "'x RepositoryDependency \<Rightarrow> Project \<Rightarrow> Build \<Rightarrow> (returned, 'x) prog" where
  "RepositoryDependency_buildInstall this project build = prog_return (Value Null)"

text \<open>
  The build backend of \<open>./cmake\<close> is not among the sources: it is the three functions
  \<open>configure\<close>, \<open>build\<close> and \<open>install\<close>, each returning a promise, whatever they do.
\<close>

record 'x CMake =
  CMake_configure :: "Path \<Rightarrow> Path \<Rightarrow> CMakeOptions \<Rightarrow> (settled, 'x) prog"
  CMake_build :: "Path \<Rightarrow> (settled, 'x) prog"
  CMake_install :: "Path \<Rightarrow> (settled, 'x) prog"

text \<open>
  The options that \<open>CMakeDependency.buildInstall\<close> builds: \<open>build.releaseBuild\<close> and
  \<open>build.platform\<close> are read from the build it is handed.
\<close>

definition cmakeOptions :: "'x RepositoryDependency \<Rightarrow> Project \<Rightarrow> Build \<Rightarrow> CMakeOptions" where
  "cmakeOptions this project build =
     (let installLocation = dirForDependencyInstall project build in
      CMakeOptions_configOptions (configOptions (descriptor this))
        (CMakeOptions_platform (Build_property build ''platform'')
          (CMakeOptions_isReleaseBuild (Build_property build ''releaseBuild'')
            (CMakeOptions_create installLocation))))"

definition CMakeDependency_buildInstall ::
  "'x CMake \<Rightarrow> 'x RepositoryDependency \<Rightarrow> Project \<Rightarrow> Build \<Rightarrow> (returned, 'x) prog" where
  "CMakeDependency_buildInstall cmake this project build =
     (let sourceLocation = dirForDependency project (RepositoryDependency_name this);
          buildLocation = dirForDependencyBuild project (RepositoryDependency_name this) build
      in promise
           (await (call (CMakeConfigure sourceLocation buildLocation (cmakeOptions this project build))
                     (CMake_configure cmake sourceLocation buildLocation
                        (cmakeOptions this project build)))
              (\<lambda>_. await (call (CMakeBuild buildLocation) (CMake_build cmake buildLocation))
                 (\<lambda>_. call (CMakeInstall buildLocation) (CMake_install cmake buildLocation)))))"

text \<open>The two classes seen through the interface \<open>Dependency\<close>.\<close>

definition RepositoryDependency_Dependency :: "'x RepositoryDependency \<Rightarrow> 'x Dependency" where
  "RepositoryDependency_Dependency this =
     \<lparr>Dependency_name = RepositoryDependency_name this,
      Dependency_patches = patches this,
      Dependency_download = RepositoryDependency_download this,
      Dependency_buildInstall = RepositoryDependency_buildInstall this\<rparr>"

definition CMakeDependency_Dependency :: "'x CMake \<Rightarrow> 'x RepositoryDependency \<Rightarrow> 'x Dependency" where
  "CMakeDependency_Dependency cmake this =
     \<lparr>Dependency_name = RepositoryDependency_name this,
      Dependency_patches = patches this,
      Dependency_download = RepositoryDependency_download this,
      Dependency_buildInstall = CMakeDependency_buildInstall cmake this\<rparr>"

text \<open>\<open>raftlog\<close> of \<open>./log\<close> writes one progress line.\<close>

definition raftlog :: "string \<Rightarrow> string \<Rightarrow> (unit, 'x) prog" where
  "raftlog n message s = ((), [Invoke (Raftlog n message) []], s)"

definition getDependency :: "Project \<Rightarrow> Build \<Rightarrow> 'x Dependency \<Rightarrow> (settled, 'x) prog" where
  "getDependency project build dependency =
     prog_bind (raftlog (Dependency_name dependency) ''Downloading'') (\<lambda>_.
     await (call (DependencyDownload (Dependency_name dependency))
              (Dependency_download dependency project build)) (\<lambda>_.
     prog_bind (raftlog (Dependency_name dependency) ''Building'') (\<lambda>_.
     await (adopt (call (DependencyBuildInstall (Dependency_name dependency))
                     (Dependency_buildInstall dependency project build))) (\<lambda>_.
     prog_bind (raftlog (Dependency_name dependency) ''Ready'') (\<lambda>_.
     prog_return (Resolved Undefined))))))"


section \<open>The dependency as an object with an assignable descriptor\<close>

text \<open>
  \<open>constructor(public descriptor : DependencyDescriptor, ...)\<close> declares \<open>descriptor\<close>
  a public field, neither \<open>readonly\<close> nor private, and \<open>get name ()\<close> reads it each
  time it is called. To follow the name across operations, the descriptor of the
  dependency is held in the external state, where every collaborator can assign it, next
  to whatever else the collaborators keep; the repository and the patch list stay the
  ones given to the constructor.
\<close>

type_synonym 'y object_state = "DependencyDescriptor \<times> 'y"

definition this_descriptor :: "'y object_state env \<Rightarrow> DependencyDescriptor" where
  "this_descriptor s = fst (snd s)"






text \<open>A piece of code leaves the descriptor alone when, from every state, the state it
  reaches holds the descriptor it started with.\<close>

definition leaves_descriptor :: "('a, 'y object_state) prog \<Rightarrow> bool" where
  "leaves_descriptor f = (\<forall>s. this_descriptor (snd (snd (f s))) = this_descriptor s)"

section \<open>\<open>template.ts\<close>\<close>

text \<open>
  Modelled from the spec: \<open>Path.append\<close> of \<open>./path\<close> is not among the sources
  (the spec names it as path joining): the path, a separator and the further segment.
\<close>

definition Path_append :: "Path \<Rightarrow> string \<Rightarrow> Path" where
  "Path_append p segment = p @ ''/'' @ segment"

text \<open>
  The gulp pipeline of \<open>instantiateTemplate\<close> (mustache, the renaming callback and the
  write to the destination all run inside it) is one external run: source globs, template
  context and destination go in, and the stream ends with \<open>finish\<close> (no error) or with
  \<open>error\<close>. \<open>rimraf\<close> removes a directory and hands its callback an error or nothing.
\<close>

type_synonym 'x gulp_fn =
  "string list \<Rightarrow> (string \<times> string) list \<Rightarrow> string \<Rightarrow> 'x env \<Rightarrow> js_error option \<times> 'x env"

type_synonym 'x rimraf_fn = "string \<Rightarrow> 'x env \<Rightarrow> js_error option \<times> 'x env"

definition instantiateTemplate ::
  "'x gulp_fn \<Rightarrow> Path \<Rightarrow> Path \<Rightarrow> (string \<times> string) list \<Rightarrow> (settled, 'x) prog" where
  "instantiateTemplate gulp templatePath destination ctx =
     (let globs = [Path_append templatePath ''**'', ''!'' @ Path_append templatePath ''index.js'']
      in prog_bind (extcall (GulpPipeline globs ctx destination) (gulp globs ctx destination))
           (\<lambda>outcome. prog_return
              (case outcome of None \<Rightarrow> Resolved Undefined | Some err \<Rightarrow> Rejected err)))"

definition instantiateRepositoryTemplate ::
  "'x gulp_fn \<Rightarrow> 'x rimraf_fn \<Rightarrow> 'x Repository \<Rightarrow> Path \<Rightarrow> (string \<times> string) list \<Rightarrow> (settled, 'x) prog" where
  "instantiateRepositoryTemplate gulp rimraf repo destination ctx =
     (let repoLocation = Path_append destination ''.template'' in
      await (call (RepositoryDownload repoLocation) (Repository_download repo repoLocation)) (\<lambda>_.
      await (instantiateTemplate gulp repoLocation destination ctx) (\<lambda>_.
      prog_bind (extcall (Rimraf repoLocation) (rimraf repoLocation))
        (\<lambda>err. prog_return (Resolved Undefined)))))"

section \<open>Example collaborators\<close>

text \<open>
  Stub collaborators over an external state that is the filesystem alone: a process
  runner that always succeeds, one that always fails, a repository that creates the
  destination directory, one whose patches fail, and a build backend whose \<open>build\<close> step
  fails.
\<close>

definition execute_ok :: "unit execute_fn" where
  "execute_ok cmd args cwd s = (Resolved (ProcessOutput []), s)"

definition execute_fails :: "unit execute_fn" where
  "execute_fails cmd args cwd s = (Rejected (JsError ''exit 1''), s)"

definition repository_ok :: "unit Repository" where
  "repository_ok =
     \<lparr>Repository_download = (\<lambda>destination s. (Resolved Undefined, [], (insert destination (fst s), ()))),
      Repository_patch = (\<lambda>repoDirectory patch s. (Resolved Undefined, [], s))\<rparr>"

definition repository_patch_fails :: "Path \<Rightarrow> unit Repository" where
  "repository_patch_fails bad =
     \<lparr>Repository_download = (\<lambda>destination s. (Resolved Undefined, [], (insert destination (fst s), ()))),
      Repository_patch = (\<lambda>repoDirectory patch s.
         if patch = bad then (Rejected (JsError ''patch does not apply''), [], s)
         else (Resolved Undefined, [], s))\<rparr>"

definition repository_download_fails :: "unit Repository" where
  "repository_download_fails =
     \<lparr>Repository_download = (\<lambda>destination s. (Rejected (JsError ''clone failed''), [], s)),
      Repository_patch = (\<lambda>repoDirectory patch s. (Resolved Undefined, [], s))\<rparr>"

definition cmake_ok :: "unit CMake" where
  "cmake_ok =
     \<lparr>CMake_configure = (\<lambda>source buildDir opts s. (Resolved Undefined, [], s)),
      CMake_build = (\<lambda>buildDir s. (Resolved Undefined, [], s)),
      CMake_install = (\<lambda>buildDir s. (Resolved Undefined, [], s))\<rparr>"

definition cmake_build_fails :: "unit CMake" where
  "cmake_build_fails =
     \<lparr>CMake_configure = (\<lambda>source buildDir opts s. (Resolved Undefined, [], s)),
      CMake_build = (\<lambda>buildDir s. (Rejected (JsError ''build failed''), [], s)),
      CMake_install = (\<lambda>buildDir s. (Resolved Undefined, [], s))\<rparr>"

definition cmake_configure_fails :: "unit CMake" where
  "cmake_configure_fails =
     \<lparr>CMake_configure = (\<lambda>source buildDir opts s. (Rejected (JsError ''configure failed''), [], s)),
      CMake_build = (\<lambda>buildDir s. (Resolved Undefined, [], s)),
      CMake_install = (\<lambda>buildDir s. (Resolved Undefined, [], s))\<rparr>"

definition project_example :: Project where
  "project_example =
     \<lparr>dirForDependency = (\<lambda>n. ''deps/'' @ n),
      dirForDependencyBuild = (\<lambda>n build. ''build/'' @ n),
      dirForDependencyInstall = (\<lambda>build. ''install'')\<rparr>"

definition build_example :: Build where
  "build_example =
     BuildConfig_object
       \<lparr>platform = Platform_Host, architecture = Architecture_Host, isDeploy = True\<rparr>"

definition zlib :: "unit Repository \<Rightarrow> unit RepositoryDependency" where
  "zlib repo =
     \<lparr>descriptor = \<lparr>name = ''zlib'', configOptions = [(''FOO'', ''bar'')]\<rparr>,
      repository = repo,
      patches = [''fix1.patch'', ''fix2.patch'', ''fix3.patch'']\<rparr>"




section \<open>Properties\<close>

lemma await_Rejected:
  "m s = (Rejected e, evs, s1) \<Longrightarrow> await m k s = (Rejected e, evs, s1)"
  by (simp add: await_def prog_bind_def prog_return_def)

lemma await_Resolved:
  "m s = (Resolved v, evs, s1) \<Longrightarrow> k v s1 = (r, evs', s2) \<Longrightarrow> await m k s = (r, evs @ evs', s2)"
  by (simp add: await_def prog_bind_def)

lemma call_eq: "f s = (r, evs, s1) \<Longrightarrow> call i f s = (r, [Invoke i evs], s1)"
  by (simp add: call_def)

lemma await_return: "await (prog_return (Resolved v)) k = k v"
  by (rule ext) (simp add: await_def prog_bind_def prog_return_def split: prod.splits)

lemma await_assoc: "await (await m k1) k2 = await m (\<lambda>v. await (k1 v) k2)"
  by (rule ext)
     (simp add: await_def prog_bind_def prog_return_def split: prod.splits settled.splits)

lemma applyPatches_append:
  "applyPatches repo dir (ps1 @ ps2) =
     await (applyPatches repo dir ps1) (\<lambda>_. applyPatches repo dir ps2)"
  by (induction ps1) (simp_all add: await_return await_assoc)

lemma buildInstall_configure_first:
  "\<exists>r evs rest s1.
     CMakeDependency_buildInstall cmake this project build s =
       (r, Invoke (CMakeConfigure (dirForDependency project (name (descriptor this)))
                     (dirForDependencyBuild project (name (descriptor this)) build)
                     (cmakeOptions this project build)) evs # rest, s1)"
  by (simp add: CMakeDependency_buildInstall_def RepositoryDependency_name_def Let_def
        promise_def await_def prog_bind_def prog_return_def call_def
        split: prod.splits settled.splits)

lemma patches_all_resolve_applyPatches:
  "patches_all_resolve repo dir ps s = Some (pevs, s2) \<Longrightarrow>
   applyPatches repo dir ps s = (Resolved Undefined, pevs, s2)
   \<and> map invocation_of pevs = map (RepositoryPatch dir) ps"
proof (induction ps arbitrary: s pevs s2)
  case Nil
  then show ?case by (simp add: prog_return_def)
next
  case (Cons p ps)
  obtain r evs s1 where p1: "Repository_patch repo dir p s = (r, evs, s1)"
    by (cases "Repository_patch repo dir p s") auto
  with Cons.prems obtain v where r: "r = Resolved v"
    by (cases r) auto
  with p1 Cons.prems obtain evs' where
    rest: "patches_all_resolve repo dir ps s1 = Some (evs', s2)"
    and pevs: "pevs = Invoke (RepositoryPatch dir p) evs # evs'"
    by (auto split: option.splits)
  from Cons.IH [OF rest] p1 r pevs show ?case
    by (simp add: await_Resolved [OF call_eq])
qed

lemma patches_all_resolve_None:
  "patches_all_resolve repo dir ps s = None \<Longrightarrow>
   \<exists>ps1 p ps2 evs1 s2 e evs2 s3.
     ps = ps1 @ p # ps2 \<and> patches_all_resolve repo dir ps1 s = Some (evs1, s2) \<and>
     Repository_patch repo dir p s2 = (Rejected e, evs2, s3)"
proof (induction ps arbitrary: s)
  case Nil
  then show ?case by simp
next
  case (Cons p ps)
  obtain r evs s1 where p1: "Repository_patch repo dir p s = (r, evs, s1)"
    by (cases "Repository_patch repo dir p s") auto
  show ?case
  proof (cases r)
    case (Rejected e)
    with p1 have "p # ps = [] @ p # ps \<and> patches_all_resolve repo dir [] s = Some ([], s) \<and>
        Repository_patch repo dir p s = (Rejected e, evs, s1)"
      by simp
    then show ?thesis by blast
  next
    case (Resolved v)
    with p1 Cons.prems have "patches_all_resolve repo dir ps s1 = None"
      by (auto split: option.splits)
    from Cons.IH [OF this] obtain ps1 q ps2 evs1 s2 e evs2 s3 where
      "ps = ps1 @ q # ps2" "patches_all_resolve repo dir ps1 s1 = Some (evs1, s2)"
      "Repository_patch repo dir q s2 = (Rejected e, evs2, s3)"
      by blast
    with p1 Resolved have "p # ps = (p # ps1) @ q # ps2 \<and>
        patches_all_resolve repo dir (p # ps1) s = Some (Invoke (RepositoryPatch dir p) evs # evs1, s2) \<and>
        Repository_patch repo dir q s2 = (Rejected e, evs2, s3)"
      by simp
    then show ?thesis by blast
  qed
qed

lemma patches_all_resolve_Some:
  "\<forall>p\<in>set ps. \<forall>s. \<exists>v evs s1. Repository_patch repo dir p s = (Resolved v, evs, s1) \<Longrightarrow>
   \<exists>pevs s2. patches_all_resolve repo dir ps s = Some (pevs, s2)"
proof (induction ps arbitrary: s)
  case Nil
  then show ?case by simp
next
  case (Cons p ps)
  from Cons.prems obtain v evs s1 where p1: "Repository_patch repo dir p s = (Resolved v, evs, s1)"
    by (meson list.set_intros(1))
  from Cons.prems have "\<forall>p\<in>set ps. \<forall>s. \<exists>v evs s1. Repository_patch repo dir p s = (Resolved v, evs, s1)"
    by simp
  from Cons.IH [OF this] obtain pevs s2 where "patches_all_resolve repo dir ps s1 = Some (pevs, s2)"
    by blast
  with p1 show ?case by simp
qed

lemma leaves_descriptorD:
  "leaves_descriptor f \<Longrightarrow> f s = (r, evs, s1) \<Longrightarrow> this_descriptor s1 = this_descriptor s"
proof -
  assume a: "leaves_descriptor f" and run: "f s = (r, evs, s1)"
  from a have "this_descriptor (snd (snd (f s))) = this_descriptor s"
    unfolding leaves_descriptor_def by (rule spec)
  with run show ?thesis by simp
qed

lemma leaves_descriptorI:
  "(\<And>s r evs s1. f s = (r, evs, s1) \<Longrightarrow> this_descriptor s1 = this_descriptor s) \<Longrightarrow>
   leaves_descriptor f"
  unfolding leaves_descriptor_def
proof
  fix s
  assume h: "\<And>s r evs s1. f s = (r, evs, s1) \<Longrightarrow> this_descriptor s1 = this_descriptor s"
  obtain r evs s1 where "f s = (r, evs, s1)" by (cases "f s") auto
  with h [OF this] show "this_descriptor (snd (snd (f s))) = this_descriptor s" by simp
qed

lemma leaves_descriptor_return: "leaves_descriptor (prog_return a)"
  by (simp add: leaves_descriptor_def prog_return_def)

lemma leaves_descriptor_bind:
  assumes "leaves_descriptor m" and "\<And>a. leaves_descriptor (k a)"
  shows "leaves_descriptor (prog_bind m k)"
proof (rule leaves_descriptorI)
  fix s r evs s2
  assume run: "prog_bind m k s = (r, evs, s2)"
  obtain a evs1 s1 where m: "m s = (a, evs1, s1)" by (cases "m s") auto
  obtain b evs2 s2' where k: "k a s1 = (b, evs2, s2')" by (cases "k a s1") auto
  from run m k have "s2 = s2'" by (simp add: prog_bind_def)
  with leaves_descriptorD [OF assms(1) m] leaves_descriptorD [OF assms(2) k]
  show "this_descriptor s2 = this_descriptor s" by simp
qed






lemma leaves_descriptor_adopt: "leaves_descriptor m \<Longrightarrow> leaves_descriptor (adopt m)"
  unfolding adopt_def by (rule leaves_descriptor_bind) (simp_all add: leaves_descriptor_return)




text \<open>
  C1. \<open>getDependency\<close>, for any project, build and dependency (any \<open>download\<close> and
  any \<open>buildInstall\<close>): it logs "Downloading" and calls \<open>download\<close>. When the promise
  of \<open>download\<close> rejects, that error is the result, the trace ends with the call of
  \<open>download\<close> and the state is the one \<open>download\<close> left, whatever \<open>buildInstall\<close>
  would do: it is not called. When the promise resolves, "Building" is logged and
  \<open>buildInstall\<close> is called after it, from the state \<open>download\<close> left; a rejection of
  its promise is the result, and otherwise "Ready" is logged and the result resolves.
\<close>

theorem getDependency_sequencing:
  "(\<forall>e evs s1. Dependency_download d project build s = (Rejected e, evs, s1) \<longrightarrow>
      getDependency project build (d\<lparr>Dependency_buildInstall := f\<rparr>) s =
        (Rejected e,
         [Invoke (Raftlog (Dependency_name d) ''Downloading'') [],
          Invoke (DependencyDownload (Dependency_name d)) evs], s1))
   \<and> (\<forall>v evs s1 ret evs' s2.
        Dependency_download d project build s = (Resolved v, evs, s1) \<and>
        f project build s1 = (ret, evs', s2) \<longrightarrow>
        getDependency project build (d\<lparr>Dependency_buildInstall := f\<rparr>) s =
          (case ret of
             Promise (Rejected e) \<Rightarrow>
               (Rejected e,
                [Invoke (Raftlog (Dependency_name d) ''Downloading'') [],
                 Invoke (DependencyDownload (Dependency_name d)) evs,
                 Invoke (Raftlog (Dependency_name d) ''Building'') [],
                 Invoke (DependencyBuildInstall (Dependency_name d)) evs'], s2)
           | _ \<Rightarrow>
               (Resolved Undefined,
                [Invoke (Raftlog (Dependency_name d) ''Downloading'') [],
                 Invoke (DependencyDownload (Dependency_name d)) evs,
                 Invoke (Raftlog (Dependency_name d) ''Building'') [],
                 Invoke (DependencyBuildInstall (Dependency_name d)) evs',
                 Invoke (Raftlog (Dependency_name d) ''Ready'') []], s2)))"
  by (auto simp: getDependency_def prog_bind_def raftlog_def await_def adopt_def call_def
        prog_return_def split: returned.splits settled.splits)

theorem getDependency_sequencing_witness:
  "getDependency project_example build_example
     (CMakeDependency_Dependency cmake_ok (zlib repository_download_fails)) ({}, ()) =
     (Rejected (JsError ''clone failed''),
      [Invoke (Raftlog ''zlib'' ''Downloading'') [],
       Invoke (DependencyDownload ''zlib'') [Invoke (RepositoryDownload ''deps/zlib'') []]],
      ({}, ()))
   \<and> getDependency project_example build_example
       (CMakeDependency_Dependency cmake_ok (zlib repository_ok)) ({}, ()) =
     (Resolved Undefined,
      [Invoke (Raftlog ''zlib'' ''Downloading'') [],
       Invoke (DependencyDownload ''zlib'')
         [Invoke (RepositoryDownload ''deps/zlib'') [],
          Invoke (RepositoryPatch ''deps/zlib'' ''fix1.patch'') [],
          Invoke (RepositoryPatch ''deps/zlib'' ''fix2.patch'') [],
          Invoke (RepositoryPatch ''deps/zlib'' ''fix3.patch'') []],
       Invoke (Raftlog ''zlib'' ''Building'') [],
       Invoke (DependencyBuildInstall ''zlib'')
         [Invoke (CMakeConfigure ''deps/zlib'' ''build/zlib''
                    \<lparr>opt_create = ''install'', opt_isReleaseBuild = Some Undefined,
                     opt_platform = Some (PlatformValue Platform_Host),
                     opt_configOptions = Some [(''FOO'', ''bar'')]\<rparr>) [],
          Invoke (CMakeBuild ''build/zlib'') [],
          Invoke (CMakeInstall ''build/zlib'') []],
       Invoke (Raftlog ''zlib'' ''Ready'') []],
      ({''deps/zlib''}, ()))"
  using getDependency_sequencing
          [of "CMakeDependency_Dependency cmake_ok (zlib repository_download_fails)"
              project_example build_example "({}, ())"
              "CMakeDependency_buildInstall cmake_ok (zlib repository_download_fails)"]
        getDependency_sequencing
          [of "CMakeDependency_Dependency cmake_ok (zlib repository_ok)"
              project_example build_example "({}, ())"
              "CMakeDependency_buildInstall cmake_ok (zlib repository_ok)"]
  by (simp add: CMakeDependency_Dependency_def RepositoryDependency_download_def
        RepositoryDependency_name_def CMakeDependency_buildInstall_def cmakeOptions_def
        CMakeOptions_create_def CMakeOptions_isReleaseBuild_def CMakeOptions_platform_def
        CMakeOptions_configOptions_def Build_property_def
        zlib_def repository_download_fails_def repository_ok_def cmake_ok_def
        project_example_def build_example_def BuildConfig_object_def Path_exists_def
        await_def prog_bind_def prog_return_def call_def promise_def Let_def)

text \<open>
  C2. When the source directory of a \<open>RepositoryDependency\<close> already exists, \<open>download\<close>
  resolves without calling the repository at all (its trace is empty and the external
  state is untouched), and so does a second \<open>download\<close> made after the first.
\<close>

theorem RepositoryDependency_download_idempotent:
  assumes present: "Path_exists s (dirForDependency project (name (descriptor this)))"
  shows "RepositoryDependency_download this project build s = (Resolved Undefined, [], s)
   \<and> (\<forall>r evs s1. RepositoryDependency_download this project build s = (r, evs, s1) \<longrightarrow>
        RepositoryDependency_download this project build s1 = (Resolved Undefined, [], s1))"
proof -
  have first: "RepositoryDependency_download this project build s = (Resolved Undefined, [], s)"
    using present
    by (simp add: RepositoryDependency_download_def RepositoryDependency_name_def
          prog_return_def Let_def)
  then show ?thesis by auto
qed

theorem RepositoryDependency_download_idempotent_witness:
  "Path_exists ({''deps/zlib''}, ()) (dirForDependency project_example (name (descriptor (zlib repository_ok))))
   \<and> RepositoryDependency_download (zlib repository_ok) project_example build_example
       ({''deps/zlib''}, ()) = (Resolved Undefined, [], ({''deps/zlib''}, ()))"
proof -
  have present: "Path_exists ({''deps/zlib''}, ())
      (dirForDependency project_example (name (descriptor (zlib repository_ok))))"
    by (simp add: Path_exists_def project_example_def zlib_def)
  from RepositoryDependency_download_idempotent [OF present, of build_example] present
  show ?thesis by simp
qed

text \<open>
  C3. When the source directory is absent, \<open>download\<close> first calls
  \<open>repository.download\<close> on that directory; if that rejects, \<open>download\<close> rejects with
  the same error and no patch is tried. Once it has resolved, from the state it left:
  when every patch of the list, handed to \<open>repository.patch\<close> in the list's order,
  resolves, \<open>download\<close> resolves and the calls after the repository download are exactly
  those, one per patch, in order; when a patch rejects after the patches before it
  resolved, \<open>download\<close> rejects with its error, that call is the last one made and the
  patches after it are not tried. One of the two is always the case. In particular, with
  a repository whose \<open>patch\<close> never rejects on these patches, \<open>download\<close> resolves
  having tried them all in order.
\<close>

theorem RepositoryDependency_download_absent:
  assumes absent: "\<not> Path_exists s (dirForDependency project (name (descriptor this)))"
  shows
  "(\<forall>e evs s1.
      Repository_download (repository this) (dirForDependency project (name (descriptor this))) s
        = (Rejected e, evs, s1) \<longrightarrow>
      RepositoryDependency_download this project build s =
        (Rejected e,
         [Invoke (RepositoryDownload (dirForDependency project (name (descriptor this)))) evs], s1))
   \<and> (\<forall>v evs s1.
        Repository_download (repository this) (dirForDependency project (name (descriptor this))) s
          = (Resolved v, evs, s1) \<longrightarrow>
        (\<forall>pevs s2.
           patches_all_resolve (repository this)
             (dirForDependency project (name (descriptor this))) (patches this) s1
             = Some (pevs, s2) \<longrightarrow>
           RepositoryDependency_download this project build s =
             (Resolved Undefined,
              Invoke (RepositoryDownload (dirForDependency project (name (descriptor this)))) evs
                # pevs, s2)
           \<and> map invocation_of pevs =
               map (RepositoryPatch (dirForDependency project (name (descriptor this))))
                 (patches this))
        \<and> (\<forall>ps1 p ps2 evs1 s2 e evs2 s3.
             patches this = ps1 @ p # ps2 \<and>
             patches_all_resolve (repository this)
               (dirForDependency project (name (descriptor this))) ps1 s1 = Some (evs1, s2) \<and>
             Repository_patch (repository this) (dirForDependency project (name (descriptor this)))
               p s2 = (Rejected e, evs2, s3) \<longrightarrow>
             RepositoryDependency_download this project build s =
               (Rejected e,
                Invoke (RepositoryDownload (dirForDependency project (name (descriptor this)))) evs
                  # evs1 @
                  [Invoke (RepositoryPatch (dirForDependency project (name (descriptor this))) p)
                     evs2],
                s3)
             \<and> map invocation_of evs1 =
                 map (RepositoryPatch (dirForDependency project (name (descriptor this)))) ps1)
        \<and> (patches_all_resolve (repository this)
              (dirForDependency project (name (descriptor this))) (patches this) s1 = None \<longrightarrow>
            (\<exists>ps1 p ps2 evs1 s2 e evs2 s3.
               patches this = ps1 @ p # ps2 \<and>
               patches_all_resolve (repository this)
                 (dirForDependency project (name (descriptor this))) ps1 s1 = Some (evs1, s2) \<and>
               Repository_patch (repository this)
                 (dirForDependency project (name (descriptor this))) p s2
                 = (Rejected e, evs2, s3)))
        \<and> ((\<forall>p\<in>set (patches this). \<forall>s'. \<exists>v' evs' s''.
               Repository_patch (repository this)
                 (dirForDependency project (name (descriptor this))) p s'
                 = (Resolved v', evs', s'')) \<longrightarrow>
            (\<exists>pevs s2.
               RepositoryDependency_download this project build s =
                 (Resolved Undefined,
                  Invoke (RepositoryDownload (dirForDependency project (name (descriptor this))))
                    evs # pevs, s2)
               \<and> map invocation_of pevs =
                   map (RepositoryPatch (dirForDependency project (name (descriptor this))))
                     (patches this))))"
proof -
  define dir where "dir = dirForDependency project (name (descriptor this))"
  define repo where "repo = repository this"
  have dl: "RepositoryDependency_download this project build s =
      await (call (RepositoryDownload dir) (Repository_download repo dir))
        (\<lambda>_. applyPatches repo dir (patches this)) s"
    using absent
    by (simp add: RepositoryDependency_download_def RepositoryDependency_name_def dir_def repo_def
          Let_def)
  have rej: "RepositoryDependency_download this project build s =
        (Rejected e, [Invoke (RepositoryDownload dir) evs], s1)"
    if "Repository_download repo dir s = (Rejected e, evs, s1)" for e evs s1
    using that by (simp add: dl await_Rejected [OF call_eq])
  have all: "RepositoryDependency_download this project build s =
         (Resolved Undefined, Invoke (RepositoryDownload dir) evs # pevs, s2)
       \<and> map invocation_of pevs = map (RepositoryPatch dir) (patches this)"
    if d: "Repository_download repo dir s = (Resolved v, evs, s1)"
      and ok: "patches_all_resolve repo dir (patches this) s1 = Some (pevs, s2)"
    for v evs s1 pevs s2
    using d patches_all_resolve_applyPatches [OF ok]
    by (simp add: dl await_Resolved [OF call_eq])
  have first_bad: "RepositoryDependency_download this project build s =
         (Rejected e, Invoke (RepositoryDownload dir) evs # evs1 @ [Invoke (RepositoryPatch dir p) evs2], s3)
       \<and> map invocation_of evs1 = map (RepositoryPatch dir) ps1"
    if d: "Repository_download repo dir s = (Resolved v, evs, s1)"
      and split: "patches this = ps1 @ p # ps2"
      and pre: "patches_all_resolve repo dir ps1 s1 = Some (evs1, s2)"
      and bad: "Repository_patch repo dir p s2 = (Rejected e, evs2, s3)"
    for v evs s1 ps1 p ps2 evs1 s2 e evs2 s3
  proof -
    from patches_all_resolve_applyPatches [OF pre]
    have pre': "applyPatches repo dir ps1 s1 = (Resolved Undefined, evs1, s2)"
      and tr: "map invocation_of evs1 = map (RepositoryPatch dir) ps1"
      by simp_all
    have "applyPatches repo dir (p # ps2) s2 = (Rejected e, [Invoke (RepositoryPatch dir p) evs2], s3)"
      using bad by (simp add: await_Rejected [OF call_eq])
    with pre' have "applyPatches repo dir (patches this) s1 =
        (Rejected e, evs1 @ [Invoke (RepositoryPatch dir p) evs2], s3)"
      unfolding split applyPatches_append by (rule await_Resolved)
    with d tr show ?thesis by (simp add: dl await_Resolved [OF call_eq])
  qed
  have total: "\<exists>ps1 p ps2 evs1 s2 e evs2 s3.
         patches this = ps1 @ p # ps2 \<and> patches_all_resolve repo dir ps1 s1 = Some (evs1, s2) \<and>
         Repository_patch repo dir p s2 = (Rejected e, evs2, s3)"
    if "patches_all_resolve repo dir (patches this) s1 = None" for s1
    using patches_all_resolve_None [OF that] .
  have never: "\<exists>pevs s2.
         RepositoryDependency_download this project build s =
           (Resolved Undefined, Invoke (RepositoryDownload dir) evs # pevs, s2)
         \<and> map invocation_of pevs = map (RepositoryPatch dir) (patches this)"
    if d: "Repository_download repo dir s = (Resolved v, evs, s1)"
      and ok: "\<forall>p\<in>set (patches this). \<forall>s'. \<exists>v' evs' s''.
                 Repository_patch repo dir p s' = (Resolved v', evs', s'')"
    for v evs s1
  proof -
    from patches_all_resolve_Some [OF ok] obtain pevs s2 where
      "patches_all_resolve repo dir (patches this) s1 = Some (pevs, s2)"
      by blast
    from all [OF d this] show ?thesis by blast
  qed
  have resolved: "(\<forall>pevs s2.
           patches_all_resolve repo dir (patches this) s1 = Some (pevs, s2) \<longrightarrow>
           RepositoryDependency_download this project build s =
             (Resolved Undefined, Invoke (RepositoryDownload dir) evs # pevs, s2)
           \<and> map invocation_of pevs = map (RepositoryPatch dir) (patches this))
        \<and> (\<forall>ps1 p ps2 evs1 s2 e evs2 s3.
             patches this = ps1 @ p # ps2 \<and>
             patches_all_resolve repo dir ps1 s1 = Some (evs1, s2) \<and>
             Repository_patch repo dir p s2 = (Rejected e, evs2, s3) \<longrightarrow>
             RepositoryDependency_download this project build s =
               (Rejected e,
                Invoke (RepositoryDownload dir) evs # evs1 @ [Invoke (RepositoryPatch dir p) evs2],
                s3)
             \<and> map invocation_of evs1 = map (RepositoryPatch dir) ps1)
        \<and> (patches_all_resolve repo dir (patches this) s1 = None \<longrightarrow>
            (\<exists>ps1 p ps2 evs1 s2 e evs2 s3.
               patches this = ps1 @ p # ps2 \<and>
               patches_all_resolve repo dir ps1 s1 = Some (evs1, s2) \<and>
               Repository_patch repo dir p s2 = (Rejected e, evs2, s3)))
        \<and> ((\<forall>p\<in>set (patches this). \<forall>s'. \<exists>v' evs' s''.
               Repository_patch repo dir p s' = (Resolved v', evs', s'')) \<longrightarrow>
            (\<exists>pevs s2.
               RepositoryDependency_download this project build s =
                 (Resolved Undefined, Invoke (RepositoryDownload dir) evs # pevs, s2)
               \<and> map invocation_of pevs = map (RepositoryPatch dir) (patches this)))"
    if d: "Repository_download repo dir s = (Resolved v, evs, s1)" for v evs s1
  proof (intro conjI allI impI)
    fix pevs s2
    assume "patches_all_resolve repo dir (patches this) s1 = Some (pevs, s2)"
    from all [OF d this]
    show "RepositoryDependency_download this project build s =
             (Resolved Undefined, Invoke (RepositoryDownload dir) evs # pevs, s2)"
      and "map invocation_of pevs = map (RepositoryPatch dir) (patches this)"
      by simp_all
  next
    fix ps1 p ps2 evs1 s2 e evs2 s3
    assume a: "patches this = ps1 @ p # ps2 \<and>
             patches_all_resolve repo dir ps1 s1 = Some (evs1, s2) \<and>
             Repository_patch repo dir p s2 = (Rejected e, evs2, s3)"
    from first_bad [OF d, of ps1 p ps2 evs1 s2 e evs2 s3] a
    show "RepositoryDependency_download this project build s =
               (Rejected e,
                Invoke (RepositoryDownload dir) evs # evs1 @ [Invoke (RepositoryPatch dir p) evs2],
                s3)"
      and "map invocation_of evs1 = map (RepositoryPatch dir) ps1"
      by simp_all
  next
    assume "patches_all_resolve repo dir (patches this) s1 = None"
    from total [OF this]
    show "\<exists>ps1 p ps2 evs1 s2 e evs2 s3.
               patches this = ps1 @ p # ps2 \<and>
               patches_all_resolve repo dir ps1 s1 = Some (evs1, s2) \<and>
               Repository_patch repo dir p s2 = (Rejected e, evs2, s3)" .
  next
    assume "\<forall>p\<in>set (patches this). \<forall>s'. \<exists>v' evs' s''.
               Repository_patch repo dir p s' = (Resolved v', evs', s'')"
    from never [OF d this]
    show "\<exists>pevs s2.
               RepositoryDependency_download this project build s =
                 (Resolved Undefined, Invoke (RepositoryDownload dir) evs # pevs, s2)
               \<and> map invocation_of pevs = map (RepositoryPatch dir) (patches this)" .
  qed
  have rejected: "\<forall>e evs s1.
      Repository_download repo dir s = (Rejected e, evs, s1) \<longrightarrow>
      RepositoryDependency_download this project build s =
        (Rejected e, [Invoke (RepositoryDownload dir) evs], s1)"
    using rej by blast
  show ?thesis
    unfolding dir_def [symmetric] repo_def [symmetric]
    apply (rule conjI)
     apply (rule rejected)
    apply (intro allI impI)
    apply (rule resolved)
    apply assumption
    done
qed

theorem RepositoryDependency_download_absent_witness:
  "\<not> Path_exists ({}, ()) (dirForDependency project_example
         (name (descriptor (zlib (repository_patch_fails ''fix2.patch'')))))
   \<and> RepositoryDependency_download (zlib (repository_patch_fails ''fix2.patch''))
       project_example build_example ({}, ()) =
     (Rejected (JsError ''patch does not apply''),
      [Invoke (RepositoryDownload ''deps/zlib'') [],
       Invoke (RepositoryPatch ''deps/zlib'' ''fix1.patch'') [],
       Invoke (RepositoryPatch ''deps/zlib'' ''fix2.patch'') []],
      ({''deps/zlib''}, ()))
   \<and> RepositoryDependency_download (zlib repository_ok) project_example build_example ({}, ()) =
     (Resolved Undefined,
      [Invoke (RepositoryDownload ''deps/zlib'') [],
       Invoke (RepositoryPatch ''deps/zlib'' ''fix1.patch'') [],
       Invoke (RepositoryPatch ''deps/zlib'' ''fix2.patch'') [],
       Invoke (RepositoryPatch ''deps/zlib'' ''fix3.patch'') []],
      ({''deps/zlib''}, ()))
   \<and> RepositoryDependency_download (zlib repository_download_fails) project_example
       build_example ({}, ()) =
     (Rejected (JsError ''clone failed''), [Invoke (RepositoryDownload ''deps/zlib'') []], ({}, ()))"
proof -
  have absent: "\<not> Path_exists ({}, ()) (dirForDependency project_example (name (descriptor (zlib r))))"
    for r
    by (simp add: Path_exists_def)
  have dir: "dirForDependency project_example (name (descriptor (zlib r))) = ''deps/zlib''" for r
    by (simp add: project_example_def zlib_def)
  have bad: "RepositoryDependency_download (zlib (repository_patch_fails ''fix2.patch''))
       project_example build_example ({}, ()) =
     (Rejected (JsError ''patch does not apply''),
      [Invoke (RepositoryDownload ''deps/zlib'') [],
       Invoke (RepositoryPatch ''deps/zlib'' ''fix1.patch'') [],
       Invoke (RepositoryPatch ''deps/zlib'' ''fix2.patch'') []],
      ({''deps/zlib''}, ()))"
  proof -
    have d: "Repository_download (repository (zlib (repository_patch_fails ''fix2.patch'')))
        ''deps/zlib'' ({}, ()) = (Resolved Undefined, [], ({''deps/zlib''}, ()))"
      by (simp add: zlib_def repository_patch_fails_def)
    note first_rejecting =
      RepositoryDependency_download_absent
        [OF absent, of "repository_patch_fails ''fix2.patch''" build_example, unfolded dir,
         THEN conjunct2, rule_format, OF d, THEN conjunct2, THEN conjunct1, rule_format,
         of "[''fix1.patch'']" "''fix2.patch''" "[''fix3.patch'']"
            "[Invoke (RepositoryPatch ''deps/zlib'' ''fix1.patch'') []]"
            "({''deps/zlib''}, ())" "JsError ''patch does not apply''" "[]"
            "({''deps/zlib''}, ())"]
    from first_rejecting show ?thesis
      by (simp add: zlib_def repository_patch_fails_def)
  qed
  have good: "RepositoryDependency_download (zlib repository_ok) project_example build_example ({}, ()) =
     (Resolved Undefined,
      [Invoke (RepositoryDownload ''deps/zlib'') [],
       Invoke (RepositoryPatch ''deps/zlib'' ''fix1.patch'') [],
       Invoke (RepositoryPatch ''deps/zlib'' ''fix2.patch'') [],
       Invoke (RepositoryPatch ''deps/zlib'' ''fix3.patch'') []],
      ({''deps/zlib''}, ()))"
  proof -
    have d: "Repository_download (repository (zlib repository_ok))
        ''deps/zlib'' ({}, ()) = (Resolved Undefined, [], ({''deps/zlib''}, ()))"
      by (simp add: zlib_def repository_ok_def)
    note all_resolve =
      RepositoryDependency_download_absent
        [OF absent, of repository_ok build_example, unfolded dir,
         THEN conjunct2, rule_format, OF d, THEN conjunct1, rule_format,
         of "[Invoke (RepositoryPatch ''deps/zlib'' ''fix1.patch'') [],
              Invoke (RepositoryPatch ''deps/zlib'' ''fix2.patch'') [],
              Invoke (RepositoryPatch ''deps/zlib'' ''fix3.patch'') []]"
            "({''deps/zlib''}, ())"]
    from all_resolve show ?thesis
      by (simp add: zlib_def repository_ok_def)
  qed
  have fails: "RepositoryDependency_download (zlib repository_download_fails) project_example
       build_example ({}, ()) =
     (Rejected (JsError ''clone failed''), [Invoke (RepositoryDownload ''deps/zlib'') []], ({}, ()))"
    using RepositoryDependency_download_absent [OF absent, of repository_download_fails build_example]
    by (simp add: dir) (simp add: zlib_def repository_download_fails_def)
  from absent bad good fails show ?thesis by blast
qed

text \<open>
  C4. \<open>CMakeDependency.buildInstall\<close> calls the build backend's \<open>configure\<close> (on the
  source directory, the build directory and the options), then \<open>build\<close>, then
  \<open>install\<close> (on the build directory), each from the state the step before left once
  it resolved. A step that rejects is the last call made: the returned promise rejects
  with that error, the later steps are not called, and the state is the one the failing
  step left (nothing is cleaned up). When \<open>configure\<close> and \<open>build\<close> resolve, the
  returned promise settles as \<open>install\<close> does.
\<close>

theorem CMakeDependency_buildInstall_pipeline:
  "(\<forall>e evs s1.
      CMake_configure cmake (dirForDependency project (name (descriptor this)))
        (dirForDependencyBuild project (name (descriptor this)) build)
        (cmakeOptions this project build) s = (Rejected e, evs, s1) \<longrightarrow>
      CMakeDependency_buildInstall cmake this project build s =
        (Promise (Rejected e),
         [Invoke (CMakeConfigure (dirForDependency project (name (descriptor this)))
                    (dirForDependencyBuild project (name (descriptor this)) build)
                    (cmakeOptions this project build)) evs], s1))
   \<and> (\<forall>v evs s1 e evs2 s2.
        CMake_configure cmake (dirForDependency project (name (descriptor this)))
          (dirForDependencyBuild project (name (descriptor this)) build)
          (cmakeOptions this project build) s = (Resolved v, evs, s1) \<and>
        CMake_build cmake (dirForDependencyBuild project (name (descriptor this)) build) s1
          = (Rejected e, evs2, s2) \<longrightarrow>
        CMakeDependency_buildInstall cmake this project build s =
          (Promise (Rejected e),
           [Invoke (CMakeConfigure (dirForDependency project (name (descriptor this)))
                      (dirForDependencyBuild project (name (descriptor this)) build)
                      (cmakeOptions this project build)) evs,
            Invoke (CMakeBuild (dirForDependencyBuild project (name (descriptor this)) build))
              evs2], s2))
   \<and> (\<forall>v evs s1 v2 evs2 s2 r evs3 s3.
        CMake_configure cmake (dirForDependency project (name (descriptor this)))
          (dirForDependencyBuild project (name (descriptor this)) build)
          (cmakeOptions this project build) s = (Resolved v, evs, s1) \<and>
        CMake_build cmake (dirForDependencyBuild project (name (descriptor this)) build) s1
          = (Resolved v2, evs2, s2) \<and>
        CMake_install cmake (dirForDependencyBuild project (name (descriptor this)) build) s2
          = (r, evs3, s3) \<longrightarrow>
        CMakeDependency_buildInstall cmake this project build s =
          (Promise r,
           [Invoke (CMakeConfigure (dirForDependency project (name (descriptor this)))
                      (dirForDependencyBuild project (name (descriptor this)) build)
                      (cmakeOptions this project build)) evs,
            Invoke (CMakeBuild (dirForDependencyBuild project (name (descriptor this)) build))
              evs2,
            Invoke (CMakeInstall (dirForDependencyBuild project (name (descriptor this)) build))
              evs3], s3))"
proof -
  define src where "src = dirForDependency project (name (descriptor this))"
  define bld where "bld = dirForDependencyBuild project (name (descriptor this)) build"
  define opts where "opts = cmakeOptions this project build"
  have unfold: "CMakeDependency_buildInstall cmake this project build =
      promise (await (call (CMakeConfigure src bld opts) (CMake_configure cmake src bld opts))
        (\<lambda>_. await (call (CMakeBuild bld) (CMake_build cmake bld))
           (\<lambda>_. call (CMakeInstall bld) (CMake_install cmake bld))))"
    by (simp add: CMakeDependency_buildInstall_def RepositoryDependency_name_def Let_def
          src_def bld_def opts_def)
  have c1: "CMakeDependency_buildInstall cmake this project build s =
        (Promise (Rejected e), [Invoke (CMakeConfigure src bld opts) evs], s1)"
    if "CMake_configure cmake src bld opts s = (Rejected e, evs, s1)" for e evs s1
    using that
    by (simp add: unfold promise_def await_def prog_bind_def prog_return_def call_def)
  have c2: "CMakeDependency_buildInstall cmake this project build s =
        (Promise (Rejected e),
         [Invoke (CMakeConfigure src bld opts) evs, Invoke (CMakeBuild bld) evs2], s2)"
    if "CMake_configure cmake src bld opts s = (Resolved v, evs, s1)"
      and "CMake_build cmake bld s1 = (Rejected e, evs2, s2)" for v evs s1 e evs2 s2
    using that
    by (simp add: unfold promise_def await_def prog_bind_def prog_return_def call_def)
  have c3: "CMakeDependency_buildInstall cmake this project build s =
        (Promise r,
         [Invoke (CMakeConfigure src bld opts) evs, Invoke (CMakeBuild bld) evs2,
          Invoke (CMakeInstall bld) evs3], s3)"
    if "CMake_configure cmake src bld opts s = (Resolved v, evs, s1)"
      and "CMake_build cmake bld s1 = (Resolved v2, evs2, s2)"
      and "CMake_install cmake bld s2 = (r, evs3, s3)" for v evs s1 v2 evs2 s2 r evs3 s3
    using that
    by (simp add: unfold promise_def await_def prog_bind_def prog_return_def call_def)
  show ?thesis
    unfolding src_def [symmetric] bld_def [symmetric] opts_def [symmetric]
    using c1 c2 c3 by blast
qed

theorem CMakeDependency_buildInstall_pipeline_witness:
  "CMakeDependency_buildInstall cmake_configure_fails (zlib repository_ok) project_example
     build_example ({''deps/zlib''}, ()) =
     (Promise (Rejected (JsError ''configure failed'')),
      [Invoke (CMakeConfigure ''deps/zlib'' ''build/zlib''
                 (cmakeOptions (zlib repository_ok) project_example build_example)) []],
      ({''deps/zlib''}, ()))
   \<and> CMakeDependency_buildInstall cmake_build_fails (zlib repository_ok) project_example
       build_example ({''deps/zlib''}, ()) =
     (Promise (Rejected (JsError ''build failed'')),
      [Invoke (CMakeConfigure ''deps/zlib'' ''build/zlib''
                 (cmakeOptions (zlib repository_ok) project_example build_example)) [],
       Invoke (CMakeBuild ''build/zlib'') []],
      ({''deps/zlib''}, ()))
   \<and> CMakeDependency_buildInstall cmake_ok (zlib repository_ok) project_example
       build_example ({''deps/zlib''}, ()) =
     (Promise (Resolved Undefined),
      [Invoke (CMakeConfigure ''deps/zlib'' ''build/zlib''
                 (cmakeOptions (zlib repository_ok) project_example build_example)) [],
       Invoke (CMakeBuild ''build/zlib'') [],
       Invoke (CMakeInstall ''build/zlib'') []],
      ({''deps/zlib''}, ()))"
  using CMakeDependency_buildInstall_pipeline
          [of cmake_configure_fails project_example "zlib repository_ok" build_example
              "({''deps/zlib''}, ())"]
        CMakeDependency_buildInstall_pipeline
          [of cmake_build_fails project_example "zlib repository_ok" build_example
              "({''deps/zlib''}, ())"]
        CMakeDependency_buildInstall_pipeline
          [of cmake_ok project_example "zlib repository_ok" build_example
              "({''deps/zlib''}, ())"]
  by (simp add: cmake_configure_fails_def cmake_build_fails_def cmake_ok_def
        project_example_def zlib_def)

text \<open>
  C5. The options that \<open>CMakeDependency.buildInstall\<close> hands to \<open>configure\<close>, its
  first call: the install prefix is \<open>project.dirForDependencyInstall(build)\<close>, the
  release flag is the value of the build's property \<open>releaseBuild\<close>, the platform is
  the value of its property \<open>platform\<close>, and the configuration options are the
  descriptor's, as they are.
\<close>

theorem cmakeOptions_propagation:
  "cmakeOptions this project build =
     \<lparr>opt_create = dirForDependencyInstall project build,
      opt_isReleaseBuild = Some (Build_property build ''releaseBuild''),
      opt_platform = Some (Build_property build ''platform''),
      opt_configOptions = Some (configOptions (descriptor this))\<rparr>
   \<and> (\<exists>r evs rest s1.
        CMakeDependency_buildInstall cmake this project build s =
          (r, Invoke (CMakeConfigure (dirForDependency project (name (descriptor this)))
                 (dirForDependencyBuild project (name (descriptor this)) build)
                 \<lparr>opt_create = dirForDependencyInstall project build,
                  opt_isReleaseBuild = Some (Build_property build ''releaseBuild''),
                  opt_platform = Some (Build_property build ''platform''),
                  opt_configOptions = Some (configOptions (descriptor this))\<rparr>) evs # rest, s1))"
proof -
  have opts: "cmakeOptions this project build =
     \<lparr>opt_create = dirForDependencyInstall project build,
      opt_isReleaseBuild = Some (Build_property build ''releaseBuild''),
      opt_platform = Some (Build_property build ''platform''),
      opt_configOptions = Some (configOptions (descriptor this))\<rparr>"
    by (simp add: cmakeOptions_def CMakeOptions_create_def CMakeOptions_isReleaseBuild_def
          CMakeOptions_platform_def CMakeOptions_configOptions_def Let_def)
  show ?thesis
    using buildInstall_configure_first [of cmake this project build s]
    by (simp add: opts)
qed

text \<open>
  The release flag is not the build's \<open>isDeploy\<close>: for a build with the three
  properties of \<open>BuildConfig.ts\<close> and \<open>isDeploy = true\<close> the flag is \<open>undefined\<close>,
  and for a build that also has \<open>releaseBuild = false\<close> the flag is \<open>false\<close>.
\<close>

theorem cmakeOptions_release_flag_not_isDeploy:
  "opt_isReleaseBuild
     (cmakeOptions (zlib repository_ok) project_example
        (BuildConfig_object
           \<lparr>platform = Platform_Host, architecture = Architecture_Host, isDeploy = True\<rparr>))
     \<noteq> Some (Build_property
         (BuildConfig_object
            \<lparr>platform = Platform_Host, architecture = Architecture_Host, isDeploy = True\<rparr>)
         ''isDeploy'')
   \<and> opt_isReleaseBuild
       (cmakeOptions (zlib repository_ok) project_example
          [(''platform'', PlatformValue Platform_Host),
           (''architecture'', ArchitectureValue Architecture_Host),
           (''isDeploy'', Boolean True), (''releaseBuild'', Boolean False)])
     \<noteq> Some (Build_property
         [(''platform'', PlatformValue Platform_Host),
          (''architecture'', ArchitectureValue Architecture_Host),
          (''isDeploy'', Boolean True), (''releaseBuild'', Boolean False)]
         ''isDeploy'')
   \<and> opt_isReleaseBuild
     (cmakeOptions (zlib repository_ok) project_example
        (BuildConfig_object
           \<lparr>platform = Platform_Host, architecture = Architecture_Host, isDeploy = True\<rparr>))
     = Some Undefined
   \<and> Build_property
       (BuildConfig_object
          \<lparr>platform = Platform_Host, architecture = Architecture_Host, isDeploy = True\<rparr>)
       ''isDeploy'' = Boolean True
   \<and> opt_isReleaseBuild
       (cmakeOptions (zlib repository_ok) project_example
          [(''platform'', PlatformValue Platform_Host),
           (''architecture'', ArchitectureValue Architecture_Host),
           (''isDeploy'', Boolean True), (''releaseBuild'', Boolean False)])
       = Some (Boolean False)
   \<and> Build_property
       [(''platform'', PlatformValue Platform_Host),
        (''architecture'', ArchitectureValue Architecture_Host),
        (''isDeploy'', Boolean True), (''releaseBuild'', Boolean False)]
       ''isDeploy'' = Boolean True"
  by (simp add: cmakeOptions_def CMakeOptions_create_def CMakeOptions_isReleaseBuild_def
        CMakeOptions_platform_def CMakeOptions_configOptions_def Build_property_def
        BuildConfig_object_def Let_def)

text \<open>
  C6. \<open>RepositoryDependency.buildInstall\<close> makes no call and leaves the state as it
  is; what it returns is the value \<open>null\<close>, not a promise.
\<close>

theorem RepositoryDependency_buildInstall_returns_null:
  "RepositoryDependency_buildInstall this project build s = (Value Null, [], s)
   \<and> (\<nexists>p. fst (RepositoryDependency_buildInstall this project build s) = Promise p)"
  by (simp add: RepositoryDependency_buildInstall_def prog_return_def)

text \<open>
  C7. \<open>GitRepository.patch\<close> runs \<open>git apply\<close> on the patch, in the repository directory,
  only when both the directory and the patch file exist: then that process is the one call
  made, and \<open>patch\<close> settles as the process does. When either is missing no process is
  run, nothing changes, and the call resolves.
\<close>

theorem GitRepository_patch_skip_on_missing:
  "(Path_exists s repoDirectory \<and> Path_exists s patch \<longrightarrow>
      (\<forall>r s1. sys ''git'' [''apply'', patch] (Some repoDirectory) s = (r, s1) \<longrightarrow>
         GitRepository_patch sys this repoDirectory patch s =
           ((case r of Resolved v \<Rightarrow> Resolved Undefined | Rejected e \<Rightarrow> Rejected e),
            [Invoke (Execute ''git'' [''apply'', patch] (Some repoDirectory)) []], s1)))
   \<and> (\<not> (Path_exists s repoDirectory \<and> Path_exists s patch) \<longrightarrow>
        GitRepository_patch sys this repoDirectory patch s = (Resolved Undefined, [], s))"
  by (auto simp: GitRepository_patch_def await_def prog_bind_def prog_return_def
        execute_def extcall_def split: settled.splits)

theorem GitRepository_patch_skip_on_missing_witness:
  "GitRepository_patch execute_ok \<lparr>uri = ''https://example.org/zlib.git'', branch = None\<rparr>
      ''deps/zlib'' ''fix1.patch'' ({''deps/zlib'', ''fix1.patch''}, ()) =
     (Resolved Undefined, [Invoke (Execute ''git'' [''apply'', ''fix1.patch''] (Some ''deps/zlib'')) []],
      ({''deps/zlib'', ''fix1.patch''}, ()))
   \<and> GitRepository_patch execute_ok \<lparr>uri = ''https://example.org/zlib.git'', branch = None\<rparr>
      ''deps/zlib'' ''fix1.patch'' ({''deps/zlib''}, ()) = (Resolved Undefined, [], ({''deps/zlib''}, ()))
   \<and> GitRepository_patch execute_ok \<lparr>uri = ''https://example.org/zlib.git'', branch = None\<rparr>
      ''deps/zlib'' ''fix1.patch'' ({''fix1.patch''}, ()) = (Resolved Undefined, [], ({''fix1.patch''}, ()))"
  using GitRepository_patch_skip_on_missing
          [of "({''deps/zlib'', ''fix1.patch''}, ())" "''deps/zlib''" "''fix1.patch''" execute_ok
              "\<lparr>uri = ''https://example.org/zlib.git'', branch = None\<rparr>"]
        GitRepository_patch_skip_on_missing
          [of "({''deps/zlib''}, ())" "''deps/zlib''" "''fix1.patch''" execute_ok
              "\<lparr>uri = ''https://example.org/zlib.git'', branch = None\<rparr>"]
        GitRepository_patch_skip_on_missing
          [of "({''fix1.patch''}, ())" "''deps/zlib''" "''fix1.patch''" execute_ok
              "\<lparr>uri = ''https://example.org/zlib.git'', branch = None\<rparr>"]
  by (simp add: Path_exists_def execute_ok_def)

text \<open>
  C8. \<open>GitRepository.download\<close> on a destination that already exists: when the
  repository was made without a branch, no process is run at all and the call resolves
  with the state untouched; when it has a branch, the only process is
  \<open>git checkout\<close> of that branch in the destination. Nothing is fetched or pulled.
\<close>

theorem GitRepository_download_existing_not_updated:
  "GitRepository_download sys \<lparr>uri = u, branch = None\<rparr> destination (insert destination fs, x) =
     (Resolved Undefined, [], (insert destination fs, x))
   \<and> GitRepository_download sys \<lparr>uri = u, branch = Some (c # cs)\<rparr> destination
       (insert destination fs, x) =
     (case sys ''git'' [''checkout'', c # cs] (Some destination) (insert destination fs, x) of
        (r, s1) \<Rightarrow> (r, [Invoke (Execute ''git'' [''checkout'', c # cs] (Some destination)) []], s1))"
  by (simp add: GitRepository_download_def getGitRepo_def checkoutBranch_def execute_def
        extcall_def Path_exists_def await_def prog_bind_def prog_return_def
        split: prod.splits)




text \<open>
  C10. \<open>instantiateRepositoryTemplate\<close>, once the repository download has resolved and
  the template pipeline has finished: \<open>rimraf\<close> is called on the \<open>.template\<close>
  directory and, whatever its callback receives (an error or none), the result resolves.
\<close>

theorem instantiateRepositoryTemplate_ignores_cleanup_error:
  "Repository_download repo (Path_append destination ''.template'') s = (Resolved v, evs, s1) \<Longrightarrow>
   gulp [Path_append (Path_append destination ''.template'') ''**'',
         ''!'' @ Path_append (Path_append destination ''.template'') ''index.js'']
        ctx destination s1 = (None, s2) \<Longrightarrow>
   rimraf (Path_append destination ''.template'') s2 = (err, s3) \<Longrightarrow>
   instantiateRepositoryTemplate gulp rimraf repo destination ctx s =
     (Resolved Undefined,
      [Invoke (RepositoryDownload (Path_append destination ''.template'')) evs,
       Invoke (GulpPipeline
                 [Path_append (Path_append destination ''.template'') ''**'',
                  ''!'' @ Path_append (Path_append destination ''.template'') ''index.js'']
                 ctx destination) [],
       Invoke (Rimraf (Path_append destination ''.template'')) []], s3)"
  by (simp add: instantiateRepositoryTemplate_def instantiateTemplate_def Let_def await_def
        prog_bind_def prog_return_def call_def extcall_def)

theorem instantiateRepositoryTemplate_ignores_cleanup_error_witness:
  "instantiateRepositoryTemplate
     (\<lambda>globs ctx destination s. (None, (insert (destination @ ''/README.md'') (fst s), ())))
     (\<lambda>location s. (Some (JsError ''EPERM''), s))
     repository_ok ''app'' [(''name'', ''demo'')] ({}, ()) =
     (Resolved Undefined,
      [Invoke (RepositoryDownload ''app/.template'') [],
       Invoke (GulpPipeline [''app/.template/**'', ''!app/.template/index.js'']
                 [(''name'', ''demo'')] ''app'') [],
       Invoke (Rimraf ''app/.template'') []],
      ({''app/README.md'', ''app/.template''}, ()))"
proof -
  have d: "Repository_download repository_ok (Path_append ''app'' ''.template'') ({}, ()) =
      (Resolved Undefined, [], ({''app/.template''}, ()))"
    by (simp add: repository_ok_def Path_append_def)
  show ?thesis
    using instantiateRepositoryTemplate_ignores_cleanup_error
            [OF d, of "\<lambda>globs ctx destination s. (None, (insert (destination @ ''/README.md'') (fst s), ()))"
               "[(''name'', ''demo'')]" "({''app/README.md'', ''app/.template''}, ())"
               "\<lambda>location s. (Some (JsError ''EPERM''), s)" "Some (JsError ''EPERM'')"
               "({''app/README.md'', ''app/.template''}, ())"]
    by (simp add: Path_append_def)
qed

end
